theory Spec2Isabelle
  imports Complex_Main "HOL-Library.Multiset"
begin

section \<open>Python values\<close>

text \<open>
  Python floats are modelled as real numbers with exact arithmetic: there is no NaN, no
  infinity and no rounding error in this model. Exceptions are values of \<open>py_error\<close>.
\<close>

datatype py_error = ValueError | IndexError

text \<open>Python 3 \<^verbatim>\<open>round(x)\<close> on a float: the nearest integer, a tie going to the even one.\<close>

definition py_round :: "real \<Rightarrow> int" where
  "py_round x =
     (let f = \<lfloor>x\<rfloor>; d = x - of_int f
      in if d < 1/2 then f else if 1/2 < d then f + 1 else if even f then f else f + 1)"

text \<open>Python \<^verbatim>\<open>int(x)\<close> on a float truncates towards zero.\<close>

definition py_trunc :: "real \<Rightarrow> int" where
  "py_trunc x = (if 0 \<le> x then \<lfloor>x\<rfloor> else \<lceil>x\<rceil>)"

text \<open>\<^verbatim>\<open>s.replace(c, '')\<close> for a one-character \<open>c\<close>: every occurrence is removed.\<close>

definition remove_char :: "char \<Rightarrow> string \<Rightarrow> string" where
  "remove_char c s = filter (\<lambda>x. x \<noteq> c) s"

text \<open>\<^verbatim>\<open>row[i]\<close> for a non-negative index.\<close>

definition index :: "'a list \<Rightarrow> nat \<Rightarrow> py_error + 'a" where
  "index row i = (if i < length row then Inr (row ! i) else Inl IndexError)"

text \<open>The format \<^verbatim>\<open>f"{n:,}"\<close> of an integer: decimal digits in groups of three.\<close>

definition digit_char :: "nat \<Rightarrow> char" where
  "digit_char d = ''0123456789'' ! d"

fun nat_digits :: "nat \<Rightarrow> string" where
  "nat_digits n =
     (if n < 10 then [digit_char n] else nat_digits (n div 10) @ [digit_char (n mod 10)])"

declare nat_digits.simps [simp del]

fun group3 :: "string \<Rightarrow> string" where
  "group3 (a # b # c # d # ds) = a # b # c # CHR '','' # group3 (d # ds)"
| "group3 ds = ds"

definition format_commas :: "int \<Rightarrow> string" where
  "format_commas n =
     (if n < 0 then ''-'' else []) @ rev (group3 (rev (nat_digits (nat \<bar>n\<bar>))))"

section \<open>Price ticks (taiwan\_stock\_service.py, lines 29 to 52)\<close>

text \<open>
  A band is \<open>(min_price, max_price, tick)\<close>. The source writes the last upper bound as
  \<^verbatim>\<open>float('inf')\<close>; here an upper bound is optional and \<open>None\<close> stands for it.
\<close>

type_synonym band = "real \<times> real option \<times> real"

definition PRICE_TICKS :: "band list" where
  "PRICE_TICKS =
     [(0, Some 10, 0.01),
      (10, Some 50, 0.05),
      (50, Some 100, 0.1),
      (100, Some 500, 0.5),
      (500, Some 1000, 1.0),
      (1000, None, 5.0)]"

definition below :: "real \<Rightarrow> real option \<Rightarrow> bool" where
  "below price max_price = (case max_price of None \<Rightarrow> True | Some m \<Rightarrow> price < m)"

definition in_band :: "real \<Rightarrow> band \<Rightarrow> bool" where
  "in_band price b = (case b of (min_price, max_price, tick) \<Rightarrow>
     min_price \<le> price \<and> below price max_price)"

definition band_min :: "band \<Rightarrow> real" where
  "band_min b = fst b"

definition band_max :: "band \<Rightarrow> real option" where
  "band_max b = fst (snd b)"

definition band_tick :: "band \<Rightarrow> real" where
  "band_tick b = snd (snd b)"

text \<open>The loop of \<^verbatim>\<open>get_price_tick\<close>: the first band that holds the price, else 5.0.\<close>

fun tick_lookup :: "band list \<Rightarrow> real \<Rightarrow> real" where
  "tick_lookup [] price = 5.0"
| "tick_lookup (b # bs) price = (if in_band price b then band_tick b else tick_lookup bs price)"

definition get_price_tick :: "real \<Rightarrow> real" where
  "get_price_tick price = tick_lookup PRICE_TICKS price"

definition round_taiwan_price :: "real \<Rightarrow> real" where
  "round_taiwan_price price =
     (if price \<le> 0 then 0
      else let tick = get_price_tick price in of_int (py_round (price / tick)) * tick)"

text \<open>The position in the table of the band that holds a price \<open>p \<ge> 0\<close>.\<close>

definition band_index :: "real \<Rightarrow> nat" where
  "band_index p = (if p < 10 then 0 else if p < 50 then 1 else if p < 100 then 2
                   else if p < 500 then 3 else if p < 1000 then 4 else 5)"

section \<open>The limit-stock scan (taiwan\_stock\_service.py, lines 209 to 308)\<close>

text \<open>
  A row of the feed's table \<^verbatim>\<open>data9\<close> is a list of strings. The builtins \<^verbatim>\<open>float\<close>
  and \<^verbatim>\<open>int\<close> are parameters \<open>pfloat\<close> and \<open>pint\<close> of the model (\<open>None\<close> is their
  ValueError), and so is the random \<^verbatim>\<open>_estimate_limit_time\<close>: \<open>est k\<close> is the string its
  call number \<open>k\<close> returns. The time stamps of the result (\<^verbatim>\<open>last_updated\<close>,
  \<^verbatim>\<open>market_date\<close>, \<^verbatim>\<open>scan_time\<close>) and the constant \<^verbatim>\<open>data_source\<close> are left out.
\<close>

datatype direction = Up | Down

text \<open>The four display labels of the field \<^verbatim>\<open>status\<close>.\<close>

datatype status_label = At_limit_up | Near_limit_up | At_limit_down | Near_limit_down

record stock =
  code :: string
  name :: string
  symbol :: string
  current_price :: real
  reference_price :: real
  change :: real
  change_percent :: real
  volume :: string
  turnover :: string
  limit_time :: string
  is_limit :: bool
  limit_type :: direction
  status :: status_label

definition is_sentinel :: "string \<Rightarrow> bool" where
  "is_sentinel s = (s \<in> set [''--'', ''-'', ''''])"

text \<open>The numeric fields of a row, after lines 227 to 241.\<close>

record parsed_row =
  p_code :: string
  p_name :: string
  p_price :: real
  p_change_percent :: real
  p_change :: real
  p_volume :: int

text \<open>
  What one pass through the loop body does: \<open>Continue\<close> for the two \<^verbatim>\<open>continue\<close>
  statements of lines 224 and 236, \<open>Raised\<close> for an exception that the handler of line 283
  catches, \<open>Parsed\<close> when line 241 is passed.
\<close>

datatype parse_step = Continue | Raised py_error | Parsed parsed_row

definition parse_row ::
  "(string \<Rightarrow> real option) \<Rightarrow> (string \<Rightarrow> int option) \<Rightarrow> string list \<Rightarrow> parse_step" where
  "parse_row pfloat pint stock_row =
     (if length stock_row < 9 then Continue
      else
        let stock_code = stock_row ! 0;
            stock_name = stock_row ! 1;
            current_price_str = stock_row ! 8
        in (case index stock_row 10 of
              Inl e \<Rightarrow> Raised e
            | Inr change_str \<Rightarrow>
           (case index stock_row 11 of
              Inl e \<Rightarrow> Raised e
            | Inr change_percent_str \<Rightarrow>
           (let volume_str = stock_row ! 2
            in if is_sentinel current_price_str \<or> is_sentinel change_percent_str then Continue
               else
           (case pfloat (remove_char CHR '','' current_price_str) of
              None \<Rightarrow> Raised ValueError
            | Some v_current_price \<Rightarrow>
           (case pfloat (remove_char CHR ''+'' (remove_char CHR ''%'' change_percent_str)) of
              None \<Rightarrow> Raised ValueError
            | Some v_change_percent \<Rightarrow>
           (case pfloat (remove_char CHR ''+'' (remove_char CHR '','' change_str)) of
              None \<Rightarrow> Raised ValueError
            | Some v_change \<Rightarrow>
           (case (if \<not> is_sentinel volume_str then pint (remove_char CHR '','' volume_str)
                  else Some 0) of
              None \<Rightarrow> Raised ValueError
            | Some v_volume \<Rightarrow>
                Parsed \<lparr>p_code = stock_code, p_name = stock_name,
                        p_price = v_current_price, p_change_percent = v_change_percent,
                        p_change = v_change, p_volume = v_volume\<rparr>))))))))"

text \<open>Lines 243 to 281: what is appended, and to which list.\<close>

datatype outcome = Skipped | Append_up stock | Append_down stock | Neither

definition classify :: "string \<Rightarrow> parsed_row \<Rightarrow> outcome" where
  "classify t p =
     (let v_current_price = round_taiwan_price (p_price p);
          previous_price = round_taiwan_price (v_current_price - p_change p);
          v_change_percent = p_change_percent p
      in if v_change_percent \<ge> 9.5 then
           Append_up \<lparr>code = p_code p, name = p_name p, symbol = p_code p @ ''.TW'',
             current_price = v_current_price, reference_price = previous_price,
             change = p_change p, change_percent = v_change_percent,
             volume = format_commas (p_volume p),
             turnover = format_commas (py_trunc (of_int (p_volume p) * v_current_price)),
             limit_time = t,
             is_limit = (v_change_percent \<ge> 9.9),
             limit_type = Up,
             status = (if v_change_percent \<ge> 9.9 then At_limit_up else Near_limit_up)\<rparr>
         else if v_change_percent \<le> - 9.5 then
           Append_down \<lparr>code = p_code p, name = p_name p, symbol = p_code p @ ''.TW'',
             current_price = v_current_price, reference_price = previous_price,
             change = p_change p, change_percent = v_change_percent,
             volume = format_commas (p_volume p),
             turnover = format_commas (py_trunc (of_int (p_volume p) * v_current_price)),
             limit_time = t,
             is_limit = (v_change_percent \<le> - 9.9),
             limit_type = Down,
             status = (if v_change_percent \<le> - 9.9 then At_limit_down else Near_limit_down)\<rparr>
         else Neither)"

definition process_row ::
  "(string \<Rightarrow> real option) \<Rightarrow> (string \<Rightarrow> int option) \<Rightarrow> string \<Rightarrow> string list \<Rightarrow> outcome" where
  "process_row pfloat pint t stock_row =
     (case parse_row pfloat pint stock_row of
        Continue \<Rightarrow> Skipped
      | Raised e \<Rightarrow> Skipped
      | Parsed p \<Rightarrow> classify t p)"

text \<open>
  The loop of line 222 over the rows, with the two lists it appends to. The estimate of
  the limit time is drawn once for each appended stock, so its call number is the number
  of stocks appended so far.
\<close>

fun scan_rows ::
  "(string \<Rightarrow> real option) \<Rightarrow> (string \<Rightarrow> int option) \<Rightarrow> (nat \<Rightarrow> string) \<Rightarrow>
   string list list \<Rightarrow> stock list \<times> stock list \<Rightarrow> stock list \<times> stock list" where
  "scan_rows pfloat pint est [] acc = acc"
| "scan_rows pfloat pint est (stock_row # rest) (limit_up_stocks, limit_down_stocks) =
     scan_rows pfloat pint est rest
       (case process_row pfloat pint (est (length limit_up_stocks + length limit_down_stocks)) stock_row of
          Append_up s \<Rightarrow> (limit_up_stocks @ [s], limit_down_stocks)
        | Append_down s \<Rightarrow> (limit_up_stocks, limit_down_stocks @ [s])
        | _ \<Rightarrow> (limit_up_stocks, limit_down_stocks))"

record scan_summary =
  total_scanned :: nat
  limit_up_found :: nat
  limit_down_found :: nat

record limit_scan_result =
  limit_up :: "stock list"
  limit_down :: "stock list"
  has_error :: bool
  summary :: scan_summary

definition get_backup_limit_data :: limit_scan_result where
  "get_backup_limit_data =
     \<lparr>limit_up = [], limit_down = [], has_error = True,
      summary = \<lparr>total_scanned = 0, limit_up_found = 0, limit_down_found = 0\<rparr>\<rparr>"

text \<open>
  \<open>data\<close> is the value under the key \<^verbatim>\<open>data9\<close> of the feed's answer, \<open>None\<close> when the
  key is absent. Python's list sort is stable, also with \<^verbatim>\<open>reverse=True\<close>, and so is
  \<open>sort_key\<close>; the descending order is the ascending order of the negated key.
\<close>

definition parse_limit_stocks_data ::
  "(string \<Rightarrow> real option) \<Rightarrow> (string \<Rightarrow> int option) \<Rightarrow> (nat \<Rightarrow> string) \<Rightarrow>
   string list list option \<Rightarrow> limit_scan_result" where
  "parse_limit_stocks_data pfloat pint est data =
     (case data of
        None \<Rightarrow> get_backup_limit_data
      | Some stocks_data \<Rightarrow>
          (case scan_rows pfloat pint est stocks_data ([], []) of
             (limit_up_stocks, limit_down_stocks) \<Rightarrow>
               let sorted_up = sort_key (\<lambda>x. - change_percent x) limit_up_stocks;
                   sorted_down = sort_key (\<lambda>x. change_percent x) limit_down_stocks
               in \<lparr>limit_up = take 20 sorted_up,
                   limit_down = take 20 sorted_down,
                   has_error = False,
                   summary = \<lparr>total_scanned = length stocks_data,
                              limit_up_found = length sorted_up,
                              limit_down_found = length sorted_down\<rparr>\<rparr>))"

subsection \<open>The words of the specification about rows\<close>

text \<open>
  The stock an outcome appends, if any.
\<close>

fun appended :: "outcome \<Rightarrow> stock option" where
  "appended (Append_up s) = Some s"
| "appended (Append_down s) = Some s"
| "appended Skipped = None"
| "appended Neither = None"

text \<open>
  A row is eligible for the up list (or the down list) when its fields parse and its
  change percent is at least 9.5 (at most -9.5): at the limit, or approaching it.
\<close>

definition up_eligible ::
  "(string \<Rightarrow> real option) \<Rightarrow> (string \<Rightarrow> int option) \<Rightarrow> string list \<Rightarrow> bool" where
  "up_eligible pfloat pint stock_row =
     (case parse_row pfloat pint stock_row of
        Parsed p \<Rightarrow> 9.5 \<le> p_change_percent p
      | Continue \<Rightarrow> False
      | Raised e \<Rightarrow> False)"

definition down_eligible ::
  "(string \<Rightarrow> real option) \<Rightarrow> (string \<Rightarrow> int option) \<Rightarrow> string list \<Rightarrow> bool" where
  "down_eligible pfloat pint stock_row =
     (case parse_row pfloat pint stock_row of
        Parsed p \<Rightarrow> \<not> 9.5 \<le> p_change_percent p \<and> p_change_percent p \<le> - 9.5
      | Continue \<Rightarrow> False
      | Raised e \<Rightarrow> False)"

text \<open>
  A row cannot be parsed when it is too short for the columns read (fewer than 9 columns
  is skipped at once, fewer than 12 raises IndexError), when its price or its change
  percent is one of the sentinel strings, or when \<^verbatim>\<open>float\<close> or \<^verbatim>\<open>int\<close> raises
  ValueError on one of its cleaned numeric fields.
\<close>

definition unparsable ::
  "(string \<Rightarrow> real option) \<Rightarrow> (string \<Rightarrow> int option) \<Rightarrow> string list \<Rightarrow> bool" where
  "unparsable pfloat pint stock_row =
     (length stock_row < 12
      \<or> is_sentinel (stock_row ! 8)
      \<or> is_sentinel (stock_row ! 11)
      \<or> pfloat (remove_char CHR '','' (stock_row ! 8)) = None
      \<or> pfloat (remove_char CHR ''+'' (remove_char CHR ''%'' (stock_row ! 11))) = None
      \<or> pfloat (remove_char CHR ''+'' (remove_char CHR '','' (stock_row ! 10))) = None
      \<or> (\<not> is_sentinel (stock_row ! 2) \<and> pint (remove_char CHR '','' (stock_row ! 2)) = None))"

section \<open>Plain decimal literals\<close>

text \<open>
  The part of Python's \<^verbatim>\<open>float\<close> and \<^verbatim>\<open>int\<close> that reads a plain decimal literal: an
  optional sign, digits, and for a float an optional point with digits on at least one side.
  (The builtins also accept blanks, underscores, exponents and the words \<^verbatim>\<open>inf\<close> and
  \<^verbatim>\<open>nan\<close>.) These two functions instantiate \<open>pfloat\<close> and \<open>pint\<close> at concrete rows.
\<close>

definition digit_value :: "char \<Rightarrow> nat option" where
  "digit_value c =
     map_of [(CHR ''0'', 0), (CHR ''1'', 1), (CHR ''2'', 2), (CHR ''3'', 3), (CHR ''4'', 4),
             (CHR ''5'', 5), (CHR ''6'', 6), (CHR ''7'', 7), (CHR ''8'', 8), (CHR ''9'', 9)] c"

fun digits_value :: "string \<Rightarrow> nat \<Rightarrow> nat option" where
  "digits_value [] acc = Some acc"
| "digits_value (c # cs) acc =
     (case digit_value c of None \<Rightarrow> None | Some d \<Rightarrow> digits_value cs (10 * acc + d))"

definition unsigned_decimal :: "string \<Rightarrow> real option" where
  "unsigned_decimal s =
     (let int_part = takeWhile (\<lambda>c. c \<noteq> CHR ''.'') s;
          rest = dropWhile (\<lambda>c. c \<noteq> CHR ''.'') s
      in if rest = [] then
           (if int_part = [] then None else map_option real (digits_value int_part 0))
         else
           let frac_part = tl rest
           in if int_part = [] \<and> frac_part = [] then None
              else case (digits_value int_part 0, digits_value frac_part 0) of
                     (Some a, Some b) \<Rightarrow> Some (real a + real b / 10 ^ length frac_part)
                   | _ \<Rightarrow> None)"

definition py_float :: "string \<Rightarrow> real option" where
  "py_float s =
     (case s of
        [] \<Rightarrow> None
      | c # cs \<Rightarrow>
          if c = CHR ''-'' then map_option uminus (unsigned_decimal cs)
          else if c = CHR ''+'' then unsigned_decimal cs
          else unsigned_decimal s)"

definition unsigned_int :: "string \<Rightarrow> int option" where
  "unsigned_int s = (if s = [] then None else map_option int (digits_value s 0))"

definition py_int :: "string \<Rightarrow> int option" where
  "py_int s =
     (case s of
        [] \<Rightarrow> None
      | c # cs \<Rightarrow>
          if c = CHR ''-'' then map_option uminus (unsigned_int cs)
          else if c = CHR ''+'' then unsigned_int cs
          else unsigned_int s)"

subsection \<open>Example rows\<close>

text \<open>
  A row has at least twelve columns; the scan reads column 0 (code), 1 (name), 2 (volume),
  8 (closing price), 10 (change) and 11 (change percent), and \<open>feed_row\<close> leaves the
  others empty.
\<close>

definition feed_row :: "string \<Rightarrow> string \<Rightarrow> string \<Rightarrow> string \<Rightarrow> string \<Rightarrow> string \<Rightarrow> string list" where
  "feed_row v_code v_name v_volume v_price v_change v_percent =
     [v_code, v_name, v_volume, [], [], [], [], [], v_price, [], v_change, v_percent]"

definition row_2345 :: "string list" where
  "row_2345 = feed_row ''2345'' ''A'' ''1,000'' ''110.00'' ''10.00'' ''9.90%''"

definition row_9999 :: "string list" where
  "row_9999 = feed_row ''9999'' ''B'' ''--'' ''--'' ''--'' ''--''"

definition row_off_tick :: "string list" where
  "row_off_tick = feed_row ''1111'' ''C'' ''1,000'' ''100.20'' ''0.50'' ''9.90%''"

section \<open>Market status\<close>

text \<open>
  A \<^verbatim>\<open>datetime\<close> is its date, as the proleptic Gregorian ordinal of \<^verbatim>\<open>toordinal()\<close>
  (day 1 is a Monday), and its time of day. The calendar's upper end (year 9999) is not
  modelled: adding days never overflows.
\<close>

record datetime =
  ordinal :: int
  hour :: nat
  minute :: nat
  second :: nat
  microsecond :: nat

definition weekday :: "datetime \<Rightarrow> nat" where
  "weekday d = nat ((ordinal d + 6) mod 7)"

definition add_days :: "datetime \<Rightarrow> nat \<Rightarrow> datetime" where
  "add_days d k = d\<lparr>ordinal := ordinal d + int k\<rparr>"

definition replace_time :: "datetime \<Rightarrow> nat \<Rightarrow> nat \<Rightarrow> nat \<Rightarrow> nat \<Rightarrow> datetime" where
  "replace_time d h m s us = d\<lparr>hour := h, minute := m, second := s, microsecond := us\<rparr>"

subsection \<open>TaiwanStockService.\_get\_market\_status (taiwan\_stock\_service.py, lines 381 to 401)\<close>

text \<open>The two labels the function returns: market open, market closed.\<close>

datatype tw_status = Tw_open | Tw_closed

definition tw_get_market_status :: "datetime \<Rightarrow> tw_status" where
  "tw_get_market_status now =
     (if weekday now \<ge> 5 then Tw_closed
      else if hour now = 9 \<and> minute now \<ge> 0 then Tw_open
      else if 10 \<le> hour now \<and> hour now \<le> 12 then Tw_open
      else if hour now = 13 \<and> minute now \<le> 30 then Tw_open
      else Tw_closed)"

subsection \<open>StockDataService.get\_market\_status (stock\_data\_service.py, lines 459 to 539)\<close>

text \<open>
  The time stamps are kept as \<open>datetime\<close> values; the source renders them with
  \<^verbatim>\<open>isoformat()\<close>. The constant \<^verbatim>\<open>timezone\<close> and the copy \<^verbatim>\<open>last_updated\<close> of
  \<^verbatim>\<open>current_time\<close> are left out.
\<close>

record market_status =
  is_open :: bool
  next_open :: "datetime option"
  next_close :: "datetime option"
  current_time :: datetime
  trading_day :: bool
  NYSE :: bool
  NASDAQ :: bool
  TSE :: bool
  HKSE :: bool

definition get_market_status :: "datetime \<Rightarrow> market_status" where
  "get_market_status now =
     (let v_is_open = (weekday now < 5 \<and> 13 \<le> hour now \<and> hour now < 21);
          v_next_open =
            (if weekday now < 5 then
               (if hour now < 13 then Some (replace_time now 13 30 0 0)
                else if hour now \<ge> 21 then
                  (let next_day = add_days now 1
                   in if weekday next_day < 5 then Some (replace_time next_day 13 30 0 0)
                      else
                        let days_until_monday = 7 - weekday next_day;
                            next_monday = add_days next_day days_until_monday
                        in Some (replace_time next_monday 13 30 0 0))
                else None)
             else
               (let days_until_monday = 7 - weekday now;
                    next_monday = add_days now days_until_monday
                in Some (replace_time next_monday 13 30 0 0)));
          v_next_close =
            (if weekday now < 5 \<and> 13 \<le> hour now \<and> hour now < 21
             then Some (replace_time now 21 0 0 0) else None)
      in \<lparr>is_open = v_is_open, next_open = v_next_open, next_close = v_next_close,
          current_time = now, trading_day = (weekday now < 5),
          NYSE = v_is_open, NASDAQ = v_is_open, TSE = False, HKSE = False\<rparr>)"

subsection \<open>The session window\<close>

text \<open>
  The words of the specification: a time of day lies in the session window when it is at
  or after the opening time and strictly before the closing time. Both bounds are whole
  minutes, so the comparison is one of minutes since midnight.
\<close>

definition minute_of_day :: "datetime \<Rightarrow> nat" where
  "minute_of_day d = hour d * 60 + minute d"

definition within_session :: "nat \<times> nat \<Rightarrow> nat \<times> nat \<Rightarrow> datetime \<Rightarrow> bool" where
  "within_session session_open session_close d =
     (fst session_open * 60 + snd session_open \<le> minute_of_day d
      \<and> minute_of_day d < fst session_close * 60 + snd session_close)"

text \<open>Monday 9 November 2026 at 13:30:00, and Saturday 7 November 2026 at 10:05:03.\<close>

definition monday_1330 :: datetime where
  "monday_1330 = \<lparr>ordinal = 739929, hour = 13, minute = 30, second = 0, microsecond = 0\<rparr>"

definition saturday_1005 :: datetime where
  "saturday_1005 = \<lparr>ordinal = 739927, hour = 10, minute = 5, second = 3, microsecond = 0\<rparr>"

section \<open>Properties of the price ticks\<close>

lemma lt6: "(i::nat) < 6 \<longleftrightarrow> i = 0 \<or> i = 1 \<or> i = 2 \<or> i = 3 \<or> i = 4 \<or> i = 5"
  by arith

lemma length_PRICE_TICKS: "length PRICE_TICKS = 6"
  by (simp add: PRICE_TICKS_def)

lemma get_price_tick_cases:
  "get_price_tick p =
     (if 0 \<le> p \<and> p < 10 then 0.01
      else if 10 \<le> p \<and> p < 50 then 0.05
      else if 50 \<le> p \<and> p < 100 then 0.1
      else if 100 \<le> p \<and> p < 500 then 0.5
      else if 500 \<le> p \<and> p < 1000 then 1
      else 5)"
  by (simp add: get_price_tick_def PRICE_TICKS_def in_band_def below_def band_tick_def)

lemma in_band_index:
  assumes "0 \<le> p"
  shows "(i < length PRICE_TICKS \<and> in_band p (PRICE_TICKS ! i)) \<longleftrightarrow> i = band_index p"
  unfolding length_PRICE_TICKS lt6
  by (auto simp add: PRICE_TICKS_def in_band_def below_def band_index_def assms)

lemma band_unique:
  assumes "0 \<le> p"
  shows "\<exists>!i. i < length PRICE_TICKS \<and> in_band p (PRICE_TICKS ! i)"
  using in_band_index [OF assms] by auto

lemma band_tick_index:
  assumes "0 \<le> p"
  shows "get_price_tick p = band_tick (PRICE_TICKS ! band_index p)"
  using assms by (simp add: get_price_tick_cases band_index_def PRICE_TICKS_def band_tick_def)

lemma get_price_tick_mono:
  assumes "0 \<le> p" "p \<le> q"
  shows "get_price_tick p \<le> get_price_tick q"
  using assms by (simp add: get_price_tick_cases)

lemma bands_contiguous:
  "Suc i < length PRICE_TICKS \<Longrightarrow> band_max (PRICE_TICKS ! i) = Some (band_min (PRICE_TICKS ! Suc i))"
  unfolding length_PRICE_TICKS
  by (auto simp add: less_Suc_eq numeral_eq_Suc PRICE_TICKS_def band_max_def band_min_def)

lemma bands_nonempty:
  "i < length PRICE_TICKS \<Longrightarrow> in_band (band_min (PRICE_TICKS ! i)) (PRICE_TICKS ! i)"
  unfolding length_PRICE_TICKS lt6
  by (auto simp add: PRICE_TICKS_def band_min_def in_band_def below_def)

lemma boundary_upper:
  "Suc i < length PRICE_TICKS \<Longrightarrow>
     get_price_tick (band_min (PRICE_TICKS ! Suc i)) = band_tick (PRICE_TICKS ! Suc i)"
  unfolding length_PRICE_TICKS
  by (auto simp add: less_Suc_eq numeral_eq_Suc get_price_tick_cases PRICE_TICKS_def band_min_def band_tick_def)

lemma ends: "band_min (hd PRICE_TICKS) = 0 \<and> band_max (last PRICE_TICKS) = None"
  by (simp add: PRICE_TICKS_def band_min_def band_max_def)


lemma get_price_tick_pos: "0 < get_price_tick p"
  by (simp add: get_price_tick_cases)

lemma py_round_nonneg: "0 \<le> x \<Longrightarrow> 0 \<le> py_round x"
  by (simp add: py_round_def Let_def)

lemma py_round_near: "\<bar>of_int (py_round x) - x\<bar> \<le> 1/2"
  unfolding py_round_def Let_def
  by (auto simp add: abs_le_iff)

text \<open>
  Claim C5. For every price that is not negative, \<open>round_taiwan_price\<close> returns a
  non-negative integer multiple of the tick \<open>get_price_tick\<close> gives for that price, and
  the multiple is a nearest one: it lies within half a tick of the price. Arithmetic is
  exact here, so the tolerance of the floating-point result is not part of the statement.
\<close>

theorem round_taiwan_price_multiple:
  assumes "0 \<le> price"
  shows "(\<exists>k::int. 0 \<le> k \<and> round_taiwan_price price = of_int k * get_price_tick price)
       \<and> \<bar>round_taiwan_price price - price\<bar> \<le> get_price_tick price / 2"
proof (cases "price = 0")
  case True
  have "round_taiwan_price price = of_int 0 * get_price_tick price"
    using True by (simp add: round_taiwan_price_def)
  moreover have "\<bar>round_taiwan_price price - price\<bar> \<le> get_price_tick price / 2"
    using True get_price_tick_pos [of price] by (simp add: round_taiwan_price_def)
  ultimately show ?thesis by blast
next
  case False
  define tick where "tick = get_price_tick price"
  define k where "k = py_round (price / tick)"
  have tick: "0 < tick"
    unfolding tick_def by (rule get_price_tick_pos)
  have pos: "0 < price"
    using assms False by simp
  have r: "round_taiwan_price price = of_int k * tick"
    using pos by (simp add: round_taiwan_price_def Let_def k_def tick_def)
  have k0: "0 \<le> k"
    unfolding k_def using pos tick by (intro py_round_nonneg) simp
  have "\<bar>of_int k - price / tick\<bar> \<le> 1/2"
    unfolding k_def by (rule py_round_near)
  then have "\<bar>of_int k - price / tick\<bar> * tick \<le> 1/2 * tick"
    using tick by (intro mult_right_mono) simp_all
  moreover have "\<bar>of_int k - price / tick\<bar> * tick = \<bar>of_int k * tick - price\<bar>"
  proof -
    have "\<bar>of_int k - price / tick\<bar> * tick = \<bar>(of_int k - price / tick) * tick\<bar>"
      using tick by (simp add: abs_mult)
    also have "(of_int k - price / tick) * tick = of_int k * tick - price"
      using tick by (simp add: field_simps)
    finally show ?thesis .
  qed
  ultimately have near: "\<bar>round_taiwan_price price - price\<bar> \<le> tick / 2"
    using r by simp
  show ?thesis
    using r k0 near unfolding tick_def by blast
qed

theorem round_taiwan_price_multiple_witness:
  "(0::real) \<le> 100.2 \<and> round_taiwan_price 100.2 = 100 \<and> get_price_tick 100.2 = 0.5
   \<and> (\<exists>k::int. 0 \<le> k \<and> round_taiwan_price 100.2 = of_int k * get_price_tick 100.2)"
  using round_taiwan_price_multiple [of "100.2"]
  by (simp add: round_taiwan_price_def get_price_tick_cases py_round_def Let_def)

text \<open>
  Claim C6. The table \<open>PRICE_TICKS\<close> partitions the prices from 0 on: a price \<open>p \<ge> 0\<close>
  lies in exactly one band and \<open>get_price_tick\<close> returns that band's tick; the first
  band starts at 0, each band ends where the next one starts, the last band has no upper
  end; every band holds its own lower end (so a price on a boundary takes the tick of the
  upper band); and the tick does not decrease as the price grows.
\<close>

theorem price_ticks_partition:
  assumes "0 \<le> p" and "p \<le> q"
  shows "(\<exists>!i. i < length PRICE_TICKS \<and> in_band p (PRICE_TICKS ! i))
       \<and> (\<forall>i. i < length PRICE_TICKS \<and> in_band p (PRICE_TICKS ! i) \<longrightarrow>
              get_price_tick p = band_tick (PRICE_TICKS ! i))
       \<and> band_min (hd PRICE_TICKS) = 0
       \<and> (\<forall>i. Suc i < length PRICE_TICKS \<longrightarrow>
              band_max (PRICE_TICKS ! i) = Some (band_min (PRICE_TICKS ! Suc i)))
       \<and> band_max (last PRICE_TICKS) = None
       \<and> (\<forall>i. i < length PRICE_TICKS \<longrightarrow> in_band (band_min (PRICE_TICKS ! i)) (PRICE_TICKS ! i))
       \<and> (\<forall>i. Suc i < length PRICE_TICKS \<longrightarrow>
              get_price_tick (band_min (PRICE_TICKS ! Suc i)) = band_tick (PRICE_TICKS ! Suc i))
       \<and> get_price_tick p \<le> get_price_tick q"
proof -
  have a: "\<exists>!i. i < length PRICE_TICKS \<and> in_band p (PRICE_TICKS ! i)"
    using assms(1) by (rule band_unique)
  have b: "\<forall>i. i < length PRICE_TICKS \<and> in_band p (PRICE_TICKS ! i) \<longrightarrow>
              get_price_tick p = band_tick (PRICE_TICKS ! i)"
  proof (intro allI impI)
    fix i
    assume "i < length PRICE_TICKS \<and> in_band p (PRICE_TICKS ! i)"
    then have "i = band_index p"
      using in_band_index [OF assms(1), of i] by simp
    then show "get_price_tick p = band_tick (PRICE_TICKS ! i)"
      using band_tick_index [OF assms(1)] by simp
  qed
  have c: "get_price_tick p \<le> get_price_tick q"
    using assms by (rule get_price_tick_mono)
  have d: "\<forall>i. Suc i < length PRICE_TICKS \<longrightarrow>
              band_max (PRICE_TICKS ! i) = Some (band_min (PRICE_TICKS ! Suc i))"
    by (intro allI impI) (rule bands_contiguous)
  have e: "\<forall>i. i < length PRICE_TICKS \<longrightarrow> in_band (band_min (PRICE_TICKS ! i)) (PRICE_TICKS ! i)"
    by (intro allI impI) (rule bands_nonempty)
  have f: "\<forall>i. Suc i < length PRICE_TICKS \<longrightarrow>
              get_price_tick (band_min (PRICE_TICKS ! Suc i)) = band_tick (PRICE_TICKS ! Suc i)"
    by (intro allI impI) (rule boundary_upper)
  show ?thesis
    apply (intro conjI)
           apply (rule a)
          apply (rule b)
         apply (rule ends [THEN conjunct1])
        apply (rule d)
       apply (rule ends [THEN conjunct2])
      apply (rule e)
     apply (rule f)
    apply (rule c)
    done
qed

theorem price_ticks_partition_witness:
  "(0::real) \<le> 10 \<and> (10::real) \<le> 49.95
   \<and> in_band 10 (PRICE_TICKS ! 1) \<and> \<not> in_band 10 (PRICE_TICKS ! 0)
   \<and> get_price_tick 10 = 0.05 \<and> get_price_tick 10 \<le> get_price_tick 49.95"
  using price_ticks_partition [of 10 "49.95"]
  by (simp add: PRICE_TICKS_def in_band_def below_def get_price_tick_cases)

text \<open>
  Claim C9, as stated, fails for the tick lookup: at the negative price \<open>-1\<close> no band
  matches and \<open>get_price_tick\<close> falls through to its last line, which returns 5.0 and
  not zero.
\<close>

theorem tick_lookup_negative_counterexample:
  "get_price_tick (- 1) = 5 \<and> get_price_tick (- 1) \<noteq> 0"
  by (simp add: get_price_tick_cases)

text \<open>
  Claim C9, amended. For every price \<open>\<le> 0\<close>, \<open>round_taiwan_price\<close> returns 0 (it never
  consults the table there). The tick lookup itself, on a negative price, finds no band
  and returns its fallback tick 5.0.
\<close>

theorem nonpositive_price_recovery:
  "(price \<le> 0 \<longrightarrow> round_taiwan_price price = 0)
   \<and> (price < 0 \<longrightarrow> get_price_tick price = 5.0 \<and> (\<forall>b \<in> set PRICE_TICKS. \<not> in_band price b))"
  by (simp add: round_taiwan_price_def get_price_tick_cases PRICE_TICKS_def in_band_def)

theorem nonpositive_price_recovery_witness:
  "round_taiwan_price (- 1) = 0 \<and> round_taiwan_price 0 = 0 \<and> get_price_tick (- 1) = 5"
  using nonpositive_price_recovery [of "- 1"] nonpositive_price_recovery [of 0]
  by simp

section \<open>Properties of the limit-stock scan\<close>

subsection \<open>One pass through the loop body\<close>

lemma classify_up:
  assumes "9.5 \<le> p_change_percent p"
  shows "\<exists>s. classify t p = Append_up s
           \<and> limit_type s = Up
           \<and> is_limit s = (9.9 \<le> p_change_percent p)
           \<and> change_percent s = p_change_percent p
           \<and> change s = p_change p
           \<and> current_price s = round_taiwan_price (p_price p)
           \<and> reference_price s = round_taiwan_price (current_price s - change s)"
  using assms by (simp add: classify_def Let_def)

lemma classify_down:
  assumes "\<not> 9.5 \<le> p_change_percent p" and "p_change_percent p \<le> - 9.5"
  shows "\<exists>s. classify t p = Append_down s
           \<and> limit_type s = Down
           \<and> is_limit s = (p_change_percent p \<le> - 9.9)
           \<and> change_percent s = p_change_percent p
           \<and> change s = p_change p
           \<and> current_price s = round_taiwan_price (p_price p)
           \<and> reference_price s = round_taiwan_price (current_price s - change s)"
  using assms by (simp add: classify_def Let_def)

lemma classify_neither:
  assumes "\<not> 9.5 \<le> p_change_percent p" and "\<not> p_change_percent p \<le> - 9.5"
  shows "classify t p = Neither"
  using assms by (simp add: classify_def Let_def)

lemma process_row_parsed:
  "parse_row pfloat pint row = Parsed p \<Longrightarrow> process_row pfloat pint t row = classify t p"
  by (simp add: process_row_def)

lemma process_row_up:
  assumes "up_eligible pfloat pint row"
  shows "\<exists>s. process_row pfloat pint t row = Append_up s"
proof -
  from assms obtain p where p: "parse_row pfloat pint row = Parsed p" "9.5 \<le> p_change_percent p"
    by (auto simp add: up_eligible_def split: parse_step.splits)
  from classify_up [OF p(2), of t] obtain s where "classify t p = Append_up s"
    by blast
  then show ?thesis
    using p(1) by (simp add: process_row_parsed)
qed

lemma process_row_down:
  assumes "down_eligible pfloat pint row"
  shows "\<exists>s. process_row pfloat pint t row = Append_down s"
proof -
  from assms obtain p where p: "parse_row pfloat pint row = Parsed p"
      "\<not> 9.5 \<le> p_change_percent p" "p_change_percent p \<le> - 9.5"
    by (auto simp add: down_eligible_def split: parse_step.splits)
  from classify_down [OF p(2,3), of t] obtain s where "classify t p = Append_down s"
    by blast
  then show ?thesis
    using p(1) by (simp add: process_row_parsed)
qed

lemma process_row_not_up:
  assumes "\<not> up_eligible pfloat pint row"
  shows "process_row pfloat pint t row \<noteq> Append_up s"
  using assms
  by (auto simp add: up_eligible_def process_row_def classify_def Let_def
      split: parse_step.splits if_splits)

lemma process_row_not_down:
  assumes "\<not> down_eligible pfloat pint row"
  shows "process_row pfloat pint t row \<noteq> Append_down s"
  using assms
  by (auto simp add: down_eligible_def process_row_def classify_def Let_def
      split: parse_step.splits if_splits)



subsection \<open>The loop\<close>



lemma length_scan_rows:
  "length (fst (scan_rows pfloat pint est rows (ups, downs))) =
     length ups + length (filter (up_eligible pfloat pint) rows)
   \<and> length (snd (scan_rows pfloat pint est rows (ups, downs))) =
     length downs + length (filter (down_eligible pfloat pint) rows)"
proof (induction rows arbitrary: ups downs)
  case Nil
  show ?case by simp
next
  case (Cons row rows)
  define t where "t = est (length ups + length downs)"
  show ?case
  proof (cases "process_row pfloat pint t row")
    case Skipped
    then have "\<not> up_eligible pfloat pint row" "\<not> down_eligible pfloat pint row"
      using process_row_up [of pfloat pint row t] process_row_down [of pfloat pint row t]
      by auto
    then show ?thesis
      using Skipped Cons.IH [of ups downs] by (simp add: t_def)
  next
    case (Append_up s)
    then have "up_eligible pfloat pint row" "\<not> down_eligible pfloat pint row"
      using process_row_not_up [of pfloat pint row t s] process_row_down [of pfloat pint row t]
      by auto
    then show ?thesis
      using Append_up Cons.IH [of "ups @ [s]" downs] by (simp add: t_def)
  next
    case (Append_down s)
    then have "\<not> up_eligible pfloat pint row" "down_eligible pfloat pint row"
      using process_row_not_down [of pfloat pint row t s] process_row_up [of pfloat pint row t]
      by auto
    then show ?thesis
      using Append_down Cons.IH [of ups "downs @ [s]"] by (simp add: t_def)
  next
    case Neither
    then have "\<not> up_eligible pfloat pint row" "\<not> down_eligible pfloat pint row"
      using process_row_up [of pfloat pint row t] process_row_down [of pfloat pint row t]
      by auto
    then show ?thesis
      using Neither Cons.IH [of ups downs] by (simp add: t_def)
  qed
qed

subsection \<open>Classification and reference price\<close>

lemma parse_row_2345:
  "parse_row py_float py_int row_2345 =
     Parsed \<lparr>p_code = ''2345'', p_name = ''A'', p_price = 110, p_change_percent = 9.9,
             p_change = 10, p_volume = 1000\<rparr>"
  by code_simp

lemma parse_row_off_tick:
  "parse_row py_float py_int row_off_tick =
     Parsed \<lparr>p_code = ''1111'', p_name = ''C'', p_price = 100.2, p_change_percent = 9.9,
             p_change = 0.5, p_volume = 1000\<rparr>"
  by code_simp



text \<open>
  Claim C4, as stated, fails: the reference price is not the tick rounding of the parsed
  price minus the parsed change. For the row with price 100.20 and change 0.50 the
  scan gives the reference price 99.5, and rounding 100.20 - 0.50 gives 99.7.
\<close>

theorem reference_price_counterexample:
  "parse_row py_float py_int row_off_tick =
     Parsed \<lparr>p_code = ''1111'', p_name = ''C'', p_price = 100.2, p_change_percent = 9.9,
             p_change = 0.5, p_volume = 1000\<rparr>
   \<and> map_option reference_price (appended (process_row py_float py_int ''09:30'' row_off_tick))
       = Some 99.5
   \<and> round_taiwan_price (100.2 - 0.5) = 99.7"
proof -
  have "process_row py_float py_int ''09:30'' row_off_tick =
          classify ''09:30'' \<lparr>p_code = ''1111'', p_name = ''C'', p_price = 100.2,
             p_change_percent = 9.9, p_change = 0.5, p_volume = 1000\<rparr>"
    using parse_row_off_tick by (rule process_row_parsed)
  then have "map_option reference_price
       (appended (process_row py_float py_int ''09:30'' row_off_tick)) = Some 99.5"
    by (simp add: classify_def Let_def round_taiwan_price_def get_price_tick_cases py_round_def)
  moreover have "round_taiwan_price (100.2 - 0.5) = 99.7"
    by (simp add: round_taiwan_price_def get_price_tick_cases py_round_def Let_def)
  ultimately show ?thesis
    using parse_row_off_tick by simp
qed

text \<open>
  Claim C4, amended. For every classified row the current price of the output is the tick
  rounding of the parsed price, and the reference price is the tick rounding of that
  rounded current price minus the parsed change. In particular the row 2345 with price
  110.00, change 10.00 and change percent 9.90 is appended to the up list with
  \<open>is_limit\<close> true and the reference price 100, which is the tick rounding of 100.
\<close>

theorem reference_price_derived:
  assumes "parse_row pfloat pint row = Parsed p"
    and "appended (process_row pfloat pint t row) = Some s"
  shows "current_price s = round_taiwan_price (p_price p)
       \<and> change s = p_change p
       \<and> reference_price s = round_taiwan_price (current_price s - p_change p)
       \<and> map_option (\<lambda>x. (limit_type x, is_limit x, current_price x, reference_price x))
           (appended (process_row py_float py_int t row_2345)) = Some (Up, True, 110, 100)
       \<and> round_taiwan_price 100 = 100"
proof -
  have pr: "process_row pfloat pint t row = classify t p"
    using assms(1) by (rule process_row_parsed)
  have gen: "current_price s = round_taiwan_price (p_price p)
       \<and> change s = p_change p
       \<and> reference_price s = round_taiwan_price (current_price s - p_change p)"
  proof (cases "9.5 \<le> p_change_percent p")
    case True
    from classify_up [OF True, of t] show ?thesis
      using assms(2) pr by auto
  next
    case False
    show ?thesis
    proof (cases "p_change_percent p \<le> - 9.5")
      case True
      from classify_down [OF False True, of t] show ?thesis
        using assms(2) pr by auto
    next
      case False2: False
      from classify_neither [OF False False2, of t] show ?thesis
        using assms(2) pr by simp
    qed
  qed
  have "process_row py_float py_int t row_2345 =
          classify t \<lparr>p_code = ''2345'', p_name = ''A'', p_price = 110, p_change_percent = 9.9,
             p_change = 10, p_volume = 1000\<rparr>"
    using parse_row_2345 by (rule process_row_parsed)
  then have sc: "map_option (\<lambda>x. (limit_type x, is_limit x, current_price x, reference_price x))
           (appended (process_row py_float py_int t row_2345)) = Some (Up, True, 110, 100)"
    by (simp add: classify_def Let_def round_taiwan_price_def get_price_tick_cases py_round_def)
  have "round_taiwan_price 100 = 100"
    by (simp add: round_taiwan_price_def get_price_tick_cases py_round_def Let_def)
  then show ?thesis
    using gen sc by simp
qed

theorem reference_price_derived_witness:
  "\<exists>s. appended (process_row py_float py_int ''09:30'' row_off_tick) = Some s
      \<and> current_price s = 100 \<and> change s = 0.5 \<and> reference_price s = 99.5"
proof -
  have h: "parse_row py_float py_int row_off_tick =
     Parsed \<lparr>p_code = ''1111'', p_name = ''C'', p_price = 100.2, p_change_percent = 9.9,
             p_change = 0.5, p_volume = 1000\<rparr>"
    by code_simp
  have "process_row py_float py_int ''09:30'' row_off_tick =
          classify ''09:30'' \<lparr>p_code = ''1111'', p_name = ''C'', p_price = 100.2,
             p_change_percent = 9.9, p_change = 0.5, p_volume = 1000\<rparr>"
    using h by (simp add: process_row_def)
  then obtain s where s: "appended (process_row py_float py_int ''09:30'' row_off_tick) = Some s"
    by (simp add: classify_def Let_def)
  show ?thesis
    using s reference_price_derived [OF h s]
    by (simp add: round_taiwan_price_def get_price_tick_cases py_round_def Let_def)
qed

subsection \<open>Aggregation\<close>

lemma scan_result_fields:
  assumes "scan_rows pfloat pint est rows ([], []) = (ups, downs)"
  shows "parse_limit_stocks_data pfloat pint est (Some rows) =
     \<lparr>limit_up = take 20 (sort_key (\<lambda>x. - change_percent x) ups),
      limit_down = take 20 (sort_key (\<lambda>x. change_percent x) downs),
      has_error = False,
      summary = \<lparr>total_scanned = length rows,
                 limit_up_found = length ups,
                 limit_down_found = length downs\<rparr>\<rparr>"
  using assms by (simp add: parse_limit_stocks_data_def Let_def)




lemma up_eligible_2345: "up_eligible py_float py_int row_2345"
  by (simp add: up_eligible_def parse_row_2345)






lemma unparsable_9999: "unparsable py_float py_int row_9999"
  by (simp add: unparsable_def row_9999_def feed_row_def is_sentinel_def)


text \<open>
  Claim C10. In every result of the scan, each found count is the length of the whole
  classified list, of which the returned list is the first 20 elements: the returned
  list is never longer than the count, and the count may exceed 20, as it does (21) for
  a table of 21 rows that are eligible for the up list.
\<close>

theorem found_counts_before_truncation:
  "(let r = parse_limit_stocks_data pfloat pint est data
    in length (limit_up r) = min 20 (limit_up_found (summary r))
     \<and> length (limit_down r) = min 20 (limit_down_found (summary r))
     \<and> length (limit_up r) \<le> limit_up_found (summary r)
     \<and> length (limit_down r) \<le> limit_down_found (summary r))
   \<and> (let r = parse_limit_stocks_data pfloat pint est (Some rows)
      in limit_up_found (summary r) = length (filter (up_eligible pfloat pint) rows)
       \<and> limit_down_found (summary r) = length (filter (down_eligible pfloat pint) rows))
   \<and> (let r = parse_limit_stocks_data py_float py_int est (Some (replicate 21 row_2345))
      in limit_up_found (summary r) = 21 \<and> length (limit_up r) = 20)"
proof -
  have some: "length (limit_up r) = min 20 (limit_up_found (summary r))
     \<and> length (limit_down r) = min 20 (limit_down_found (summary r))
     \<and> limit_up_found (summary r) = length (filter (up_eligible pf pn) rs)
     \<and> limit_down_found (summary r) = length (filter (down_eligible pf pn) rs)"
    if "r = parse_limit_stocks_data pf pn est (Some rs)" for r pf pn rs
  proof -
    obtain ups downs where sc: "scan_rows pf pn est rs ([], []) = (ups, downs)"
      by (cases "scan_rows pf pn est rs ([], [])")
    have "length ups = length (filter (up_eligible pf pn) rs)
        \<and> length downs = length (filter (down_eligible pf pn) rs)"
      using length_scan_rows [of pf pn est rs "[]" "[]"] sc by simp
    then show ?thesis
      unfolding that scan_result_fields [OF sc] by (simp add: min.commute)
  qed
  have a: "let r = parse_limit_stocks_data pfloat pint est data
    in length (limit_up r) = min 20 (limit_up_found (summary r))
     \<and> length (limit_down r) = min 20 (limit_down_found (summary r))
     \<and> length (limit_up r) \<le> limit_up_found (summary r)
     \<and> length (limit_down r) \<le> limit_down_found (summary r)"
  proof (cases data)
    case None
    then show ?thesis
      by (simp add: parse_limit_stocks_data_def get_backup_limit_data_def)
  next
    case (Some rs)
    show ?thesis
      using some [OF refl, of pfloat pint rs] unfolding Some Let_def by simp
  qed
  have b: "let r = parse_limit_stocks_data pfloat pint est (Some rows)
      in limit_up_found (summary r) = length (filter (up_eligible pfloat pint) rows)
       \<and> limit_down_found (summary r) = length (filter (down_eligible pfloat pint) rows)"
    using some [OF refl, of pfloat pint rows] unfolding Let_def by simp
  have c: "let r = parse_limit_stocks_data py_float py_int est (Some (replicate 21 row_2345))
      in limit_up_found (summary r) = 21 \<and> length (limit_up r) = 20"
    using some [OF refl, of py_float py_int "replicate 21 row_2345"]
    unfolding Let_def by (simp add: up_eligible_2345)
  show ?thesis
    apply (intro conjI)
      apply (rule a)
     apply (rule b)
    apply (rule c)
    done
qed

section \<open>Properties of the market status\<close>

text \<open>
  Claim C7, as stated, fails at the closing time: on Monday at 13:30:00 the Taiwan
  classifier still reports the market open, and 13:30 is not in the half-open window
  from 09:00 to 13:30.
\<close>

theorem session_close_counterexample:
  "weekday monday_1330 = 0
   \<and> tw_get_market_status monday_1330 = Tw_open
   \<and> \<not> within_session (9, 0) (13, 30) monday_1330"
  by (simp add: weekday_def monday_1330_def tw_get_market_status_def within_session_def
      minute_of_day_def)

text \<open>
  Claim C7, amended. On a day from Monday to Friday the Taiwan classifier reports the
  market open exactly from 09:00 up to and including the minute 13:30;
  \<open>get_market_status\<close> reports \<open>is_open\<close> for every time in the window from 13:30 to
  21:00 (21:00 excluded) and not before 13:00 nor from 21:00 on. On Saturday and Sunday
  both report the market closed.
\<close>

theorem market_open_window:
  assumes "minute now < 60"
  shows "(weekday now < 5 \<longrightarrow>
            (tw_get_market_status now = Tw_open) =
              (9 * 60 \<le> minute_of_day now \<and> minute_of_day now \<le> 13 * 60 + 30))
       \<and> (weekday now < 5 \<and> within_session (13, 30) (21, 0) now \<longrightarrow>
            is_open (get_market_status now))
       \<and> (weekday now < 5 \<and> (hour now < 13 \<or> 21 \<le> hour now) \<longrightarrow>
            \<not> is_open (get_market_status now))
       \<and> (5 \<le> weekday now \<longrightarrow>
            tw_get_market_status now = Tw_closed \<and> \<not> is_open (get_market_status now))"
proof -
  have tw: "weekday now < 5 \<longrightarrow>
            (tw_get_market_status now = Tw_open) =
              (9 * 60 \<le> minute_of_day now \<and> minute_of_day now \<le> 13 * 60 + 30)"
    using assms by (auto simp add: tw_get_market_status_def minute_of_day_def)
  have us1: "weekday now < 5 \<and> within_session (13, 30) (21, 0) now \<longrightarrow>
            is_open (get_market_status now)"
    using assms by (auto simp add: get_market_status_def Let_def within_session_def minute_of_day_def)
  have us2: "weekday now < 5 \<and> (hour now < 13 \<or> 21 \<le> hour now) \<longrightarrow>
            \<not> is_open (get_market_status now)"
    by (auto simp add: get_market_status_def Let_def)
  have we: "5 \<le> weekday now \<longrightarrow>
            tw_get_market_status now = Tw_closed \<and> \<not> is_open (get_market_status now)"
    by (auto simp add: tw_get_market_status_def get_market_status_def Let_def)
  show ?thesis
    apply (intro conjI)
       apply (rule tw)
      apply (rule us1)
     apply (rule us2)
    apply (rule we)
    done
qed

theorem market_open_window_witness:
  "minute monday_1330 < 60 \<and> weekday monday_1330 < 5
   \<and> tw_get_market_status monday_1330 = Tw_open
   \<and> within_session (13, 30) (21, 0) monday_1330
   \<and> is_open (get_market_status monday_1330)"
  using market_open_window [of monday_1330]
  by (simp add: monday_1330_def weekday_def within_session_def minute_of_day_def
      tw_get_market_status_def)

text \<open>
  Claim C8. For every time stamp on a Saturday or a Sunday, \<open>get_market_status\<close>
  returns \<open>is_open\<close> false and \<open>trading_day\<close> false, and \<open>next_open\<close> is the Monday that
  follows at once (two days after a Saturday, one day after a Sunday) at the opening
  time 13:30:00.
\<close>

theorem weekend_next_open_monday:
  assumes "weekday now = 5 \<or> weekday now = 6"
  shows "\<not> is_open (get_market_status now)
       \<and> \<not> trading_day (get_market_status now)
       \<and> (\<exists>d. next_open (get_market_status now) = Some d
              \<and> weekday d = 0
              \<and> ordinal d = ordinal now + (if weekday now = 5 then 2 else 1)
              \<and> hour d = 13 \<and> minute d = 30 \<and> second d = 0 \<and> microsecond d = 0)"
proof -
  define d where "d = replace_time (add_days now (7 - weekday now)) 13 30 0 0"
  have no: "next_open (get_market_status now) = Some d"
    using assms by (auto simp add: get_market_status_def Let_def d_def)
  have closed: "\<not> is_open (get_market_status now) \<and> \<not> trading_day (get_market_status now)"
    using assms by (auto simp add: get_market_status_def Let_def)
  have ord: "ordinal d = ordinal now + (if weekday now = 5 then 2 else 1)"
    using assms by (auto simp add: d_def replace_time_def add_days_def)
  have "(ordinal now + 6) mod 7 = 5 \<or> (ordinal now + 6) mod 7 = 6"
    using assms unfolding weekday_def by auto
  then have "(ordinal d + 6) mod 7 = 0"
    using assms unfolding ord weekday_def by presburger
  then have wd: "weekday d = 0"
    by (simp add: weekday_def)
  have tm: "hour d = 13 \<and> minute d = 30 \<and> second d = 0 \<and> microsecond d = 0"
    by (simp add: d_def replace_time_def)
  show ?thesis
    using no closed ord wd tm by blast
qed

theorem weekend_next_open_monday_witness:
  "weekday saturday_1005 = 5
   \<and> \<not> is_open (get_market_status saturday_1005)
   \<and> \<not> trading_day (get_market_status saturday_1005)
   \<and> next_open (get_market_status saturday_1005) =
       Some \<lparr>ordinal = 739929, hour = 13, minute = 30, second = 0, microsecond = 0\<rparr>"
proof -
  have h: "weekday saturday_1005 = 5"
    by (simp add: weekday_def saturday_1005_def)
  have "weekday saturday_1005 = 5 \<or> weekday saturday_1005 = 6"
    using h by simp
  from weekend_next_open_monday [OF this] h show ?thesis
    by (auto simp add: saturday_1005_def)
qed

end
